theory Spec2Isabelle
  imports Main
begin

section \<open>Errors\<close>

text \<open>
  Go \<^verbatim>\<open>error\<close> values the modelled code creates, compares or passes on.
  \<^verbatim>\<open>nil\<close> is \<open>None\<close> of \<open>error option\<close>.
  \<open>ContainerNotFoundError\<close> is the runtime client's error type
  (\<^verbatim>\<open>garden.ContainerNotFoundError\<close>), \<open>ErrContainerNotFound\<close> and
  \<open>ErrInvalidTransition\<close> are the executor's sentinels. \<open>EmittableError\<close> keeps the
  wrapped error, the format string and the format arguments of
  \<^verbatim>\<open>NewEmittableError\<close>; \<open>InvalidInterval\<close> keeps the arguments of
  \<^verbatim>\<open>invalidInterval\<close>. \<open>AlreadyExists\<close> and \<open>InsufficientCapacity\<close> are the
  allocation errors the specification names. Any other error is \<open>OtherError\<close> with
  its message.
\<close>

datatype error =
    ErrContainerNotFound
  | ErrInvalidTransition
  | AlreadyExists
  | InsufficientCapacity
  | ContainerNotFoundError
  | ErrCancelled
  | InvalidInterval string int
  | EmittableError "error option" string "string list"
  | OtherError string

section \<open>The runtime-backed container store (depot/gardenstore/garden_store.go)\<close>

type_synonym guid = string

text \<open>An action tree of the scheduler's model package; the store only hands it on.\<close>

type_synonym action = string

datatype state =
    StateInvalid
  | StateReserved
  | StateInitializing
  | StateCreated
  | StateRunning
  | StateCompleted

record ContainerRunResult =
  Failed :: bool
  FailureReason :: string

text \<open>The fields of \<^verbatim>\<open>executor.Container\<close> that the stores read or write.\<close>

record Container =
  Guid :: guid
  MemoryMB :: nat
  DiskMB :: nat
  AllocatedAt :: int
  State :: state
  Setup :: "action option"
  Action :: action
  Monitor :: "action option"
  StartTimeout :: nat
  RunResult :: ContainerRunResult

text \<open>
  Properties of a runtime container. The keys are the package's constants; a value is a
  string. The strings behind the \<^verbatim>\<open>executor.State\<close> constants are declared in
  the executor package, not in the store, so \<^verbatim>\<open>string(executor.StateRunning)\<close> is
  kept as \<open>StateValue StateRunning\<close>.
\<close>

datatype property_key =
    ContainerOwnerProperty
  | ContainerStateProperty
  | ContainerResultProperty
  | TagProperty string

datatype property_value =
    StateValue state
  | StringValue string

type_synonym properties = "property_key \<rightharpoonup> property_value"

datatype event =
    ContainerRunningEvent Container
  | ContainerCompleteEvent Container

text \<open>
  The step tree \<^verbatim>\<open>Run\<close> builds. \<open>StepFor\<close> is the transformer's step for an
  action; \<open>NewMonitor\<close> keeps the monitored action, the start timeout and the healthy
  and unhealthy intervals (nanoseconds).
\<close>

datatype step =
    StepFor action
  | NewMonitor action int int int
  | NewCodependent "step list"
  | NewSerial "step list"

text \<open>
  An \<^verbatim>\<open>ifrit.Process\<close> started by \<^verbatim>\<open>runStepProcess\<close>: the container it
  supervises, the step tree it performs, and the tokens buffered in
  \<^verbatim>\<open>hasStartedRunning\<close> when it was started.
\<close>

record process =
  proc_guid :: guid
  proc_step :: step
  proc_started_tokens :: nat

text \<open>
  Calls on collaborators whose order matters: a signal sent to a supervisor, a wait for
  a supervisor's exit, a destroy request to the runtime, a cancel of a step tree.
\<close>

datatype call =
    ProcessSignal process
  | ProcessWait process
  | GardenDestroy guid
  | StepCancel guid

datatype garden_call =
    CallLookup guid
  | CallDestroy guid
  | CallSetProperty guid property_key

text \<open>
  What the store calls and does not define itself, taken as parameters:
  \<^verbatim>\<open>json.Marshal\<close> on a run result, the exchanger's \<^verbatim>\<open>Garden2Executor\<close>
  (given the handle and what the runtime holds for it), \<^verbatim>\<open>Error()\<close> of an error
  value, and the failures of the runtime itself (\<open>gardenFault c = Some e\<close>: the call
  \<open>c\<close> fails with \<open>e\<close>).
\<close>

record env =
  jsonMarshal :: "ContainerRunResult \<Rightarrow> error + string"
  Garden2Executor :: "guid \<Rightarrow> properties option \<Rightarrow> error + Container"
  errorText :: "error \<Rightarrow> string"
  gardenFault :: "garden_call \<Rightarrow> error option"

text \<open>
  The store: the runtime's containers (the state behind \<^verbatim>\<open>gardenClient\<close>), the
  monitoring intervals, the registry of running step processes, the events handed to the
  event emitter, and the collaborator calls in the order they were made.
\<close>

record GardenStore =
  gardenContainers :: "guid \<rightharpoonup> properties"
  healthyMonitoringInterval :: int
  unhealthyMonitoringInterval :: int
  runningProcesses :: "guid \<rightharpoonup> process"
  emitted :: "event list"
  calls :: "call list"

subsection \<open>The runtime client\<close>

definition garden_Lookup :: "env \<Rightarrow> GardenStore \<Rightarrow> guid \<Rightarrow> error + guid" where
  "garden_Lookup e s g =
     (case gardenFault e (CallLookup g) of
        Some err \<Rightarrow> Inl err
      | None \<Rightarrow>
          (case gardenContainers s g of
             None \<Rightarrow> Inl ContainerNotFoundError
           | Some ps \<Rightarrow> Inr g))"

definition garden_SetProperty ::
  "env \<Rightarrow> GardenStore \<Rightarrow> guid \<Rightarrow> property_key \<Rightarrow> property_value \<Rightarrow> error option \<times> GardenStore" where
  "garden_SetProperty e s g k v =
     (case gardenFault e (CallSetProperty g k) of
        Some err \<Rightarrow> (Some err, s)
      | None \<Rightarrow>
          (case gardenContainers s g of
             None \<Rightarrow> (Some ContainerNotFoundError, s)
           | Some ps \<Rightarrow> (None, s\<lparr>gardenContainers := (gardenContainers s)(g \<mapsto> ps(k \<mapsto> v))\<rparr>)))"

definition garden_Destroy :: "env \<Rightarrow> GardenStore \<Rightarrow> guid \<Rightarrow> error option \<times> GardenStore" where
  "garden_Destroy e s g =
     (let s1 = s\<lparr>calls := calls s @ [GardenDestroy g]\<rparr> in
      case gardenFault e (CallDestroy g) of
        Some err \<Rightarrow> (Some err, s1)
      | None \<Rightarrow>
          (case gardenContainers s1 g of
             None \<Rightarrow> (Some ContainerNotFoundError, s1)
           | Some ps \<Rightarrow> (None, s1\<lparr>gardenContainers := (gardenContainers s1)(g := None)\<rparr>)))"

subsection \<open>lookup, freeStepProcess, Stop, Destroy\<close>

definition lookup :: "env \<Rightarrow> GardenStore \<Rightarrow> guid \<Rightarrow> error + guid" where
  "lookup e s g =
     (case garden_Lookup e s g of
        Inl err \<Rightarrow> Inl (if err = ContainerNotFoundError then ErrContainerNotFound else err)
      | Inr gardenContainer \<Rightarrow> Inr gardenContainer)"

definition freeStepProcess :: "GardenStore \<Rightarrow> guid \<Rightarrow> process option \<times> GardenStore" where
  "freeStepProcess s g =
     (case runningProcesses s g of
        None \<Rightarrow> (None, s)
      | Some p \<Rightarrow>
          (Some p, s\<lparr>runningProcesses := (runningProcesses s)(g := None),
                      calls := calls s @ [ProcessSignal p]\<rparr>))"

text \<open>
  \<^verbatim>\<open>Stop\<close> blocks on \<^verbatim>\<open><-process.Wait()\<close> after the signal; the wait is
  recorded as a call. What the supervisor does meanwhile is \<open>supervisor\<close> below.
\<close>

definition Stop :: "GardenStore \<Rightarrow> guid \<Rightarrow> error option \<times> GardenStore" where
  "Stop s g =
     (case freeStepProcess s g of
        (None, s1) \<Rightarrow> (Some ErrContainerNotFound, s1)
      | (Some p, s1) \<Rightarrow> (None, s1\<lparr>calls := calls s1 @ [ProcessWait p]\<rparr>))"

definition Destroy :: "env \<Rightarrow> GardenStore \<Rightarrow> guid \<Rightarrow> error option \<times> GardenStore" where
  "Destroy e s g =
     (let s1 = snd (freeStepProcess s g) in
      case garden_Destroy e s1 g of
        (Some err, s2) \<Rightarrow> if err = ContainerNotFoundError then (None, s2) else (Some err, s2)
      | (None, s2) \<Rightarrow> (None, s2))"

subsection \<open>transitionToRunning, transitionToComplete\<close>


definition transitionToComplete ::
  "env \<Rightarrow> GardenStore \<Rightarrow> guid \<Rightarrow> ContainerRunResult \<Rightarrow> error option \<times> GardenStore" where
  "transitionToComplete e s gardenContainer result =
     (case jsonMarshal e result of
        Inl err \<Rightarrow> (Some err, s)
      | Inr resultJson \<Rightarrow>
          (case garden_SetProperty e s gardenContainer ContainerResultProperty (StringValue resultJson) of
             (Some err, s1) \<Rightarrow> (Some err, s1)
           | (None, s1) \<Rightarrow>
               (case garden_SetProperty e s1 gardenContainer ContainerStateProperty
                       (StateValue StateCompleted) of
                  (Some err, s2) \<Rightarrow> (Some err, s2)
                | (None, s2) \<Rightarrow>
                    (case Garden2Executor e gardenContainer (gardenContainers s2 gardenContainer) of
                       Inl err \<Rightarrow> (Some err, s2)
                     | Inr executorContainer \<Rightarrow>
                         (None, s2\<lparr>emitted := emitted s2 @ [ContainerCompleteEvent executorContainer]\<rparr>)))))"

subsection \<open>Run and runStepProcess\<close>

text \<open>
  \<^verbatim>\<open>runStepProcess\<close> starts the supervisor (its body is \<open>supervisor\<close> below) and
  registers the process under the guid.
\<close>

text \<open>
  A \<^verbatim>\<open>time.Duration\<close> is a signed 64-bit count of nanoseconds: the conversion
  \<^verbatim>\<open>time.Duration(container.StartTimeout)\<close> and the product with
  \<^verbatim>\<open>time.Second\<close> wrap around. \<open>int64\<close> is the value a signed 64-bit integer
  keeps of an integer.
\<close>

definition int64 :: "int \<Rightarrow> int" where
  "int64 x = (x + 9223372036854775808) mod 18446744073709551616 - 9223372036854775808"

definition runStepProcess :: "GardenStore \<Rightarrow> step \<Rightarrow> nat \<Rightarrow> guid \<Rightarrow> GardenStore" where
  "runStepProcess s stp tokens g =
     s\<lparr>runningProcesses := (runningProcesses s)
          (g \<mapsto> \<lparr>proc_guid = g, proc_step = stp, proc_started_tokens = tokens\<rparr>)\<rparr>"

definition Run :: "env \<Rightarrow> GardenStore \<Rightarrow> Container \<Rightarrow> error option \<times> GardenStore" where
  "Run e s container =
     (case lookup e s (Guid container) of
        Inl err \<Rightarrow> (Some err, s)
      | Inr gardenContainer \<Rightarrow>
          if State container \<noteq> StateCreated then
            (let transitionErr = ErrInvalidTransition;
                 result = \<lparr>Failed = True, FailureReason = errorText e transitionErr\<rparr>;
                 s1 = snd (transitionToComplete e s gardenContainer result)
             in (Some transitionErr, s1))
          else
            (let setupStep = map_option StepFor (Setup container);
                 actionStep = StepFor (Action container);
                 monitorStep =
                   map_option
                     (\<lambda>m. NewMonitor m (int64 (int (StartTimeout container) * 1000000000))
                            (healthyMonitoringInterval s) (unhealthyMonitoringInterval s))
                     (Monitor container);
                 longLivedAction =
                   (case monitorStep of
                      Some m \<Rightarrow> NewCodependent [actionStep, m]
                    | None \<Rightarrow> actionStep);
                 tokens = (case monitorStep of Some m \<Rightarrow> 0 | None \<Rightarrow> 1);
                 stp =
                   (case setupStep of
                      Some su \<Rightarrow> NewSerial [su, longLivedAction]
                    | None \<Rightarrow> longLivedAction)
             in (None, runStepProcess s stp tokens (Guid container))))"

subsection \<open>The supervisor: the body of the process started by runStepProcess\<close>







section \<open>The periodic monitor step (depot/steps/monitor_step.go)\<close>

text \<open>
  Durations and instants are Go's nanosecond counts, as integers.
  \<^verbatim>\<open>checkFunc\<close>, the time provider and the channels are the environment of the
  step: what they deliver is the input of the model, what the step sends or writes is
  kept in its variables.
\<close>

record monitorStep =
  startTimeout :: int
  healthyInterval :: int
  unhealthyInterval :: int

text \<open>
  How the inner \<^verbatim>\<open>select\<close> ends once the check runs: \<^verbatim>\<open>stepResult\<close>
  delivers what \<^verbatim>\<open>check.Perform()\<close> returned; or \<^verbatim>\<open>step.Cancelled()\<close> is
  received, the check is cancelled and \<^verbatim>\<open><-stepResult\<close> is returned (\<open>None\<close>: the
  check never returns); or neither ever happens.
\<close>

datatype check_end =
    CheckReturned "error option"
  | CheckCancelled "error option option"
  | CheckNeverReturns

text \<open>The outer \<^verbatim>\<open>select\<close>: the timer delivers an instant, or the step is
  cancelled.\<close>

datatype monitor_select =
    TimerC int check_end
  | Cancelled

datatype log_line =
    Line string
  | TimeoutMessage int
  | BufferDump string

record monitor_vars =
  healthy :: bool
  interval :: int
  startBy :: "int option"
  tokens_sent :: nat
  stderr_lines :: "log_line list"
  timer_resets :: "int list"

text \<open>
  The \<^verbatim>\<open>for\<close> loop of \<^verbatim>\<open>Perform\<close>. The first component of the result is
  \<open>None\<close> while the step has not returned (the receptions are used up, or a check
  never returns), \<open>Some err\<close> once it returned \<open>err\<close> (\<open>Some None\<close>: it returned
  \<^verbatim>\<open>nil\<close>).
\<close>

fun monitor_loop ::
  "monitorStep \<Rightarrow> monitor_select list \<Rightarrow> monitor_vars \<Rightarrow> error option option \<times> monitor_vars" where
  "monitor_loop step [] v = (None, v)"
| "monitor_loop step (Cancelled # rs) v = (Some (Some ErrCancelled), v)"
| "monitor_loop step (TimerC now CheckNeverReturns # rs) v = (None, v)"
| "monitor_loop step (TimerC now (CheckCancelled r) # rs) v = (r, v)"
| "monitor_loop step (TimerC now (CheckReturned stepErr) # rs) v =
     (let nowHealthy = (stepErr = None) in
      if healthy v \<and> \<not> nowHealthy then (Some stepErr, v)
      else
        (let v1 =
           (if \<not> healthy v \<and> nowHealthy
            then v\<lparr>healthy := True, interval := healthyInterval step, startBy := None,
                   tokens_sent := Suc (tokens_sent v)\<rparr>
            else v)
         in
           (case startBy v1 of
              Some sb \<Rightarrow>
                if sb < now then
                  (if \<not> healthy v1
                   then (Some stepErr,
                         v1\<lparr>stderr_lines := stderr_lines v1 @ [TimeoutMessage (startTimeout step)]\<rparr>)
                   else monitor_loop step rs
                          (v1\<lparr>startBy := None, timer_resets := timer_resets v1 @ [interval v1]\<rparr>))
                else monitor_loop step rs (v1\<lparr>timer_resets := timer_resets v1 @ [interval v1]\<rparr>)
            | None \<Rightarrow> monitor_loop step rs (v1\<lparr>timer_resets := timer_resets v1 @ [interval v1]\<rparr>))))"

text \<open>\<open>start\<close> is what \<^verbatim>\<open>step.timeProvider.Now()\<close> returns.\<close>

definition monitor_Perform ::
  "monitorStep \<Rightarrow> int \<Rightarrow> monitor_select list \<Rightarrow> error option option \<times> monitor_vars" where
  "monitor_Perform step start rs =
     (let v0 = \<lparr>healthy = False, interval = unhealthyInterval step, startBy = None,
                tokens_sent = 0, stderr_lines = [], timer_resets = []\<rparr>
      in
        if healthyInterval step \<le> 0
        then (Some (Some (InvalidInterval ''healthy'' (healthyInterval step))), v0)
        else if unhealthyInterval step \<le> 0
        then (Some (Some (InvalidInterval ''unhealthy'' (unhealthyInterval step))), v0)
        else monitor_loop step rs
               (v0\<lparr>startBy := (if 0 < startTimeout step then Some (start + startTimeout step)
                               else None)\<rparr>))"

text \<open>A reception that is not a cancellation of the step.\<close>

fun cancel_free :: "monitor_select \<Rightarrow> bool" where
  "cancel_free Cancelled = False"
| "cancel_free (TimerC now (CheckCancelled r)) = False"
| "cancel_free (TimerC now (CheckReturned stepErr)) = True"
| "cancel_free (TimerC now CheckNeverReturns) = True"

section \<open>The long-running monitor step (depot/steps/long_running_monitor_step.go)\<close>

text \<open>
  The first \<^verbatim>\<open>select\<close>: \<^verbatim>\<open>errCh\<close> delivers what the readiness check
  returned (the value is dropped); or the start timer fires, the check is cancelled and
  \<^verbatim>\<open><-errCh\<close> is awaited (\<open>None\<close>: it never arrives); or the step is cancelled;
  or nothing is ever ready. The second \<^verbatim>\<open>select\<close> likewise, without a timer.
\<close>

datatype readiness_select =
    ReadinessReturned "error option"
  | StartTimerFired "error option option"
  | ReadinessCancelled "error option option"
  | ReadinessNeverSelects

datatype liveness_select =
    LivenessReturned "error option"
  | LivenessCancelled "error option option"
  | LivenessNeverSelects

record longRunningMonitorStep =
  lr_startTimeout :: int

text \<open>What the environment delivers: the two selects, and the contents of
  \<^verbatim>\<open>outBuffer\<close> when it is read.\<close>

record lr_input =
  readiness :: readiness_select
  liveness :: liveness_select
  outBuffer_on_timeout :: string
  outBuffer_on_unhealthy :: string

record lr_vars =
  lr_tokens_sent :: nat
  lr_stdout :: "log_line list"
  lr_stderr :: "log_line list"
  lr_health_stderr :: "log_line list"
  lr_readiness_cancels :: nat
  lr_liveness_cancels :: nat

text \<open>
  \<open>healthcheckNowUnhealthy\<close> is the package's format string of that name; it is
  declared in another file of the package and taken as a parameter.
\<close>

definition longRunning_Perform ::
  "string \<Rightarrow> longRunningMonitorStep \<Rightarrow> lr_input \<Rightarrow> error option option \<times> lr_vars" where
  "longRunning_Perform healthcheckNowUnhealthy step w =
     (let o0 = \<lparr>lr_tokens_sent = 0,
                lr_stdout = [Line ''Starting health monitoring of container''],
                lr_stderr = [], lr_health_stderr = [],
                lr_readiness_cancels = 0, lr_liveness_cancels = 0\<rparr>
      in
        case readiness w of
          ReadinessNeverSelects \<Rightarrow> (None, o0)
        | StartTimerFired r \<Rightarrow>
            (case r of
               None \<Rightarrow> (None, o0\<lparr>lr_readiness_cancels := 1\<rparr>)
             | Some err \<Rightarrow>
                 (Some (Some (EmittableError err healthcheckNowUnhealthy [outBuffer_on_timeout w])),
                  o0\<lparr>lr_readiness_cancels := 1,
                     lr_health_stderr := [BufferDump (outBuffer_on_timeout w)],
                     lr_stderr := [TimeoutMessage (lr_startTimeout step)]\<rparr>))
        | ReadinessCancelled r \<Rightarrow> (r, o0\<lparr>lr_readiness_cancels := 1\<rparr>)
        | ReadinessReturned x \<Rightarrow>
            (let o1 = o0\<lparr>lr_stdout := lr_stdout o0 @ [Line ''Container became healthy''],
                         lr_tokens_sent := 1\<rparr>
             in
               case liveness w of
                 LivenessNeverSelects \<Rightarrow> (None, o1)
               | LivenessCancelled r \<Rightarrow> (r, o1\<lparr>lr_liveness_cancels := 1\<rparr>)
               | LivenessReturned err \<Rightarrow>
                   (Some (Some (EmittableError err healthcheckNowUnhealthy
                                  [outBuffer_on_unhealthy w])),
                    o1\<lparr>lr_stdout := lr_stdout o1 @ [Line ''Container became unhealthy''],
                       lr_health_stderr := [BufferDump (outBuffer_on_unhealthy w)]\<rparr>)))"

section \<open>The download step\<close>

text \<open>
  A Go channel of \<^verbatim>\<open>struct{}\<close> on which nothing is ever sent is open or closed;
  \<^verbatim>\<open>close\<close> on a closed channel panics.
\<close>

datatype chan = Open | Closed

datatype panic = CloseOfClosedChannel

definition close_chan :: "chan \<Rightarrow> panic + chan" where
  "close_chan c = (case c of Open \<Rightarrow> Inr Closed | Closed \<Rightarrow> Inl CloseOfClosedChannel)"

text \<open>The download action's source, destination and cache key, and the cancellation
  channel \<^verbatim>\<open>NewDownload\<close> makes.\<close>

record downloadStep =
  model_From :: string
  model_To :: string
  model_CacheKey :: string
  cancelChan :: chan

definition NewDownload :: "string \<Rightarrow> string \<Rightarrow> string \<Rightarrow> downloadStep" where
  "NewDownload from to cacheKey =
     \<lparr>model_From = from, model_To = to, model_CacheKey = cacheKey, cancelChan = Open\<rparr>"

definition downloadStep_Cancel :: "downloadStep \<Rightarrow> panic + downloadStep" where
  "downloadStep_Cancel step =
     (case close_chan (cancelChan step) of
        Inl p \<Rightarrow> Inl p
      | Inr c \<Rightarrow> Inr (step\<lparr>cancelChan := c\<rparr>))"

text \<open>The upload step's \<^verbatim>\<open>Cancel\<close> has an empty body.\<close>

definition UploadStep_Cancel :: "'s \<Rightarrow> panic + 's" where
  "UploadStep_Cancel step = Inr step"

section \<open>The allocation store\<close>











section \<open>The serial and the parallel step\<close>

text \<open>
  The children of the steps' tests are fake steps: \<^verbatim>\<open>PerformStub\<close> is run by
  \<^verbatim>\<open>Perform\<close> and here is what it returns. A child is named by its index in the
  array handed to \<^verbatim>\<open>NewSerial\<close> or to the parallel step's \<^verbatim>\<open>New\<close>.
\<close>

record FakeStep =
  PerformStub :: "error option"

datatype child_call =
    Performed nat
  | CleanedUp nat

text \<open>
  Modelled from the spec: the serial step (\<^verbatim>\<open>NewSerial\<close> and its \<^verbatim>\<open>Perform\<close>) is
  missing from the sources; only \<^verbatim>\<open>serial_step_test.go\<close> is there. Section 4.4.8: the
  children run strictly in order, the first error short-circuits and is returned, the
  children after it do not run, and cleanup runs over the already-performed children in
  reverse order. The test receives no cleanup from the child that failed, so the
  children cleaned up are those whose \<^verbatim>\<open>Perform\<close> returned \<^verbatim>\<open>nil\<close>. The model is
  \<^verbatim>\<open>Perform\<close> without cancellation. \<open>done\<close> holds the indices of the children
  performed so far, the latest first.
\<close>

fun serial_loop ::
  "nat \<Rightarrow> FakeStep list \<Rightarrow> nat list \<Rightarrow> child_call list \<Rightarrow> error option \<times> child_call list" where
  "serial_loop i [] done log = (None, log @ map CleanedUp done)"
| "serial_loop i (c # cs) done log =
     (case PerformStub c of
        Some err \<Rightarrow> (Some err, log @ [Performed i] @ map CleanedUp done)
      | None \<Rightarrow> serial_loop (Suc i) cs (i # done) (log @ [Performed i]))"

text \<open>Modelled from the spec: \<^verbatim>\<open>Perform\<close> of the serial step, missing from the
  sources: the loop above from the first child, nothing performed yet.\<close>

definition serial_Perform :: "FakeStep list \<Rightarrow> error option \<times> child_call list" where
  "serial_Perform steps = serial_loop 0 steps [] []"

text \<open>
  Modelled from the spec: the parallel step (\<^verbatim>\<open>New\<close> and its \<^verbatim>\<open>Perform\<close>) is
  missing from the sources; only its test is there. Section 4.4.7: all children are
  started, the step waits for all of them to complete and returns the first error
  observed by completion order. The order in which the children complete is the input
  \<open>order\<close> (indices of children); \<open>n\<close> counts the completions still awaited and
  \<open>first\<close> is the first error observed. \<open>None\<close>: \<^verbatim>\<open>Perform\<close> has not returned, a
  child is still running. An index that names no child delivers nothing.
\<close>

fun parallel_wait ::
  "FakeStep list \<Rightarrow> nat \<Rightarrow> error option \<Rightarrow> nat list \<Rightarrow> error option option" where
  "parallel_wait steps 0 first order = Some first"
| "parallel_wait steps (Suc n) first [] = None"
| "parallel_wait steps (Suc n) first (i # order) =
     (if i < length steps
      then parallel_wait steps n
             (case first of None \<Rightarrow> PerformStub (steps ! i) | Some err \<Rightarrow> Some err) order
      else parallel_wait steps (Suc n) first order)"

text \<open>Modelled from the spec: \<^verbatim>\<open>Perform\<close> of the parallel step, missing from the
  sources: all children are started, and every one of them is awaited.\<close>

definition parallel_Perform :: "FakeStep list \<Rightarrow> nat list \<Rightarrow> error option option" where
  "parallel_Perform steps order = parallel_wait steps (length steps) None order"

section \<open>Example inputs\<close>

text \<open>
  An environment for the examples: a runtime that never fails, a marshal that renders
  the two fields of a run result, an exchanger that reads the guid and the state property
  back, and error texts.
\<close>

definition example_env :: env where
  "example_env =
     \<lparr>jsonMarshal = (\<lambda>r. Inr ((if Failed r then ''failed: '' else ''ok: '') @ FailureReason r)),
      Garden2Executor = (\<lambda>g ps. case ps of
           None \<Rightarrow> Inl ContainerNotFoundError
         | Some p \<Rightarrow>
             Inr \<lparr>Guid = g, MemoryMB = 0, DiskMB = 0, AllocatedAt = 0,
                  State = (case p ContainerStateProperty of
                             Some (StateValue st) \<Rightarrow> st
                           | _ \<Rightarrow> StateInvalid),
                  Setup = None, Action = [], Monitor = None, StartTimeout = 0,
                  RunResult = \<lparr>Failed = False, FailureReason = []\<rparr>\<rparr>),
      errorText = (\<lambda>err. case err of
           ErrInvalidTransition \<Rightarrow> ''InvalidTransition''
         | ErrContainerNotFound \<Rightarrow> ''NotFound''
         | OtherError m \<Rightarrow> m
         | _ \<Rightarrow> ''error''),
      gardenFault = (\<lambda>c. None)\<rparr>"




text \<open>A store whose runtime holds the created container \<open>''a''\<close>, and that container.\<close>

definition example_store :: GardenStore where
  "example_store =
     \<lparr>gardenContainers = [''a'' \<mapsto> [ContainerStateProperty \<mapsto> StateValue StateCreated]],
      healthyMonitoringInterval = 30000000000,
      unhealthyMonitoringInterval = 500000000,
      runningProcesses = Map.empty,
      emitted = [],
      calls = []\<rparr>"

definition example_container :: Container where
  "example_container =
     \<lparr>Guid = ''a'', MemoryMB = 64, DiskMB = 64, AllocatedAt = 0, State = StateCreated,
      Setup = None, Action = ''sleep'', Monitor = None, StartTimeout = 0,
      RunResult = \<lparr>Failed = False, FailureReason = []\<rparr>\<rparr>"

text \<open>The example store after \<^verbatim>\<open>Run\<close> on the example container.\<close>

definition example_running_store :: GardenStore where
  "example_running_store = snd (Run example_env example_store example_container)"

definition example_monitor :: monitorStep where
  "example_monitor = \<lparr>startTimeout = 100, healthyInterval = 30, unhealthyInterval = 50\<rparr>"



section \<open>Theorems: the container store\<close>

subsection \<open>Shared lemmas\<close>

lemma transitionToComplete_ok:
  assumes "jsonMarshal e r = Inr js"
    and "gardenFault e (CallSetProperty g ContainerResultProperty) = None"
    and "gardenFault e (CallSetProperty g ContainerStateProperty) = None"
    and "gardenContainers s g = Some ps"
    and "Garden2Executor e g
           (Some (ps(ContainerResultProperty \<mapsto> StringValue js,
                     ContainerStateProperty \<mapsto> StateValue StateCompleted))) = Inr ec"
  shows "transitionToComplete e s g r =
           (None, s\<lparr>gardenContainers := (gardenContainers s)
                       (g \<mapsto> ps(ContainerResultProperty \<mapsto> StringValue js,
                                ContainerStateProperty \<mapsto> StateValue StateCompleted)),
                     emitted := emitted s @ [ContainerCompleteEvent ec]\<rparr>)"
  using assms by (simp add: transitionToComplete_def garden_SetProperty_def)

lemma transitionToComplete_keeps:
  "runningProcesses (snd (transitionToComplete e s g r)) = runningProcesses s \<and>
   calls (snd (transitionToComplete e s g r)) = calls s"
  by (simp add: transitionToComplete_def garden_SetProperty_def
      split: sum.splits option.splits prod.splits)

lemma lookup_Inr:
  "lookup e s g = Inr gc \<Longrightarrow> gc = g \<and> gardenContainers s g \<noteq> None \<and> gardenFault e (CallLookup g) = None"
  by (auto simp: lookup_def garden_Lookup_def split: option.splits sum.splits)



lemma int64_in_range:
  "- 9223372036854775808 \<le> x \<Longrightarrow> x < 9223372036854775808 \<Longrightarrow> int64 x = x"
  by (simp add: int64_def)

lemma int64_wraps:
  "int64 (int 9223372037 * 1000000000) = - 9223372036709551616"
  by (simp add: int64_def)

lemma example_running_store_process:
  "runningProcesses example_running_store ''a'' =
     Some \<lparr>proc_guid = ''a'', proc_step = StepFor ''sleep'', proc_started_tokens = 1\<rparr> \<and>
   calls example_running_store = [] \<and>
   gardenContainers example_running_store ''a'' =
     Some [ContainerStateProperty \<mapsto> StateValue StateCreated]"
  by (simp add: example_running_store_def Run_def lookup_def garden_Lookup_def example_env_def
      example_store_def example_container_def runStepProcess_def Let_def)

subsection \<open>Run on a container that is not Created\<close>

text \<open>
  Claim C1, as amended. For every container whose state is not Created and that the
  runtime finds, \<^verbatim>\<open>Run\<close> returns \<open>ErrInvalidTransition\<close>, registers no step process
  and makes no collaborator call of the kinds recorded; but it is not free of side
  effects: it hands the failed run result, whose reason is the text of
  \<open>ErrInvalidTransition\<close>, to \<^verbatim>\<open>transitionToComplete\<close>. When marshalling, the two
  property writes and the exchanger succeed, the runtime container then holds the result
  property and the state property Completed, and a Complete event has been emitted.
\<close>

theorem Run_not_created:
  assumes "State c \<noteq> StateCreated" and "lookup e s (Guid c) = Inr gc"
  shows "fst (Run e s c) = Some ErrInvalidTransition \<and>
         snd (Run e s c) =
           snd (transitionToComplete e s (Guid c)
                  \<lparr>Failed = True, FailureReason = errorText e ErrInvalidTransition\<rparr>) \<and>
         runningProcesses (snd (Run e s c)) = runningProcesses s \<and>
         calls (snd (Run e s c)) = calls s \<and>
         (\<forall>js ps ec.
            jsonMarshal e \<lparr>Failed = True, FailureReason = errorText e ErrInvalidTransition\<rparr> = Inr js \<and>
            gardenFault e (CallSetProperty (Guid c) ContainerResultProperty) = None \<and>
            gardenFault e (CallSetProperty (Guid c) ContainerStateProperty) = None \<and>
            gardenContainers s (Guid c) = Some ps \<and>
            Garden2Executor e (Guid c)
              (Some (ps(ContainerResultProperty \<mapsto> StringValue js,
                        ContainerStateProperty \<mapsto> StateValue StateCompleted))) = Inr ec
            \<longrightarrow>
            snd (Run e s c) =
              s\<lparr>gardenContainers := (gardenContainers s)
                    (Guid c \<mapsto> ps(ContainerResultProperty \<mapsto> StringValue js,
                                  ContainerStateProperty \<mapsto> StateValue StateCompleted)),
                emitted := emitted s @ [ContainerCompleteEvent ec]\<rparr>)"
proof -
  from assms(2) have gc: "gc = Guid c" by (simp add: lookup_Inr)
  have run: "Run e s c =
      (Some ErrInvalidTransition,
       snd (transitionToComplete e s (Guid c)
              \<lparr>Failed = True, FailureReason = errorText e ErrInvalidTransition\<rparr>))"
    using assms gc by (simp add: Run_def Let_def)
  show ?thesis
    unfolding run
    by (auto simp: transitionToComplete_keeps transitionToComplete_ok)
qed

theorem Run_not_created_witness:
  "State (example_container\<lparr>State := StateRunning\<rparr>) \<noteq> StateCreated \<and>
   lookup example_env example_store (Guid (example_container\<lparr>State := StateRunning\<rparr>)) = Inr ''a'' \<and>
   fst (Run example_env example_store (example_container\<lparr>State := StateRunning\<rparr>)) =
     Some ErrInvalidTransition \<and>
   runningProcesses (snd (Run example_env example_store (example_container\<lparr>State := StateRunning\<rparr>))) =
     runningProcesses example_store"
proof -
  have a: "State (example_container\<lparr>State := StateRunning\<rparr>) \<noteq> StateCreated" by simp
  have b: "lookup example_env example_store (Guid (example_container\<lparr>State := StateRunning\<rparr>)) =
      Inr ''a''"
    by (simp add: lookup_def garden_Lookup_def example_env_def example_store_def
        example_container_def)
  note r = Run_not_created [OF a b]
  show ?thesis
    by (intro conjI a b r [THEN conjunct1] r [THEN conjunct2, THEN conjunct2, THEN conjunct1])
qed

text \<open>
  The claim as stated fails: run on the container \<open>''a''\<close>, handed over in state
  Running, returns \<open>ErrInvalidTransition\<close>, and the runtime container has been given
  the result property and the state Completed, and a Complete event has been emitted.
\<close>

theorem Run_not_created_counterexample:
  "Run example_env example_store (example_container\<lparr>State := StateRunning\<rparr>) =
     (Some ErrInvalidTransition,
      example_store
        \<lparr>gardenContainers :=
           [''a'' \<mapsto> [ContainerStateProperty \<mapsto> StateValue StateCompleted,
                       ContainerResultProperty \<mapsto> StringValue ''failed: InvalidTransition'']],
         emitted :=
           [ContainerCompleteEvent
              \<lparr>Guid = ''a'', MemoryMB = 0, DiskMB = 0, AllocatedAt = 0, State = StateCompleted,
               Setup = None, Action = [], Monitor = None, StartTimeout = 0,
               RunResult = \<lparr>Failed = False, FailureReason = []\<rparr>\<rparr>]\<rparr>) \<and>
   emitted (snd (Run example_env example_store (example_container\<lparr>State := StateRunning\<rparr>))) \<noteq>
     emitted example_store"
  by (simp add: Run_def lookup_def garden_Lookup_def transitionToComplete_def
      garden_SetProperty_def example_env_def example_store_def example_container_def
      Let_def fun_upd_twist)

subsection \<open>The result of a stopped supervisor\<close>






subsection \<open>Destroy and the supervisor\<close>

text \<open>
  Claim C4, as amended. For every container with a registered step process,
  \<^verbatim>\<open>Destroy\<close> removes the process from the registry, signals it, and then asks
  the runtime to destroy the container, without waiting for the supervisor to exit:
  its calls are the signal and the destroy request, in this order. Only \<^verbatim>\<open>Stop\<close>
  waits for the supervisor after the signal.
\<close>

theorem Destroy_does_not_wait:
  assumes "runningProcesses s g = Some p"
  shows "calls (snd (Destroy e s g)) = calls s @ [ProcessSignal p, GardenDestroy g] \<and>
         runningProcesses (snd (Destroy e s g)) g = None \<and>
         calls (snd (Stop s g)) = calls s @ [ProcessSignal p, ProcessWait p]"
  using assms
  by (simp add: Destroy_def Stop_def freeStepProcess_def garden_Destroy_def Let_def
      split: option.splits)

theorem Destroy_does_not_wait_witness:
  "runningProcesses example_running_store ''a'' =
     Some \<lparr>proc_guid = ''a'', proc_step = StepFor ''sleep'', proc_started_tokens = 1\<rparr> \<and>
   calls (snd (Destroy example_env example_running_store ''a'')) =
     [ProcessSignal \<lparr>proc_guid = ''a'', proc_step = StepFor ''sleep'', proc_started_tokens = 1\<rparr>,
      GardenDestroy ''a''] \<and>
   calls (snd (Stop example_running_store ''a'')) =
     [ProcessSignal \<lparr>proc_guid = ''a'', proc_step = StepFor ''sleep'', proc_started_tokens = 1\<rparr>,
      ProcessWait \<lparr>proc_guid = ''a'', proc_step = StepFor ''sleep'', proc_started_tokens = 1\<rparr>]"
proof -
  have p: "runningProcesses example_running_store ''a'' =
     Some \<lparr>proc_guid = ''a'', proc_step = StepFor ''sleep'', proc_started_tokens = 1\<rparr>"
    by (simp add: example_running_store_process)
  show ?thesis
    using Destroy_does_not_wait [OF p, of example_env] p
    by (simp add: example_running_store_process)
qed

text \<open>
  The claim as stated fails: \<^verbatim>\<open>Destroy\<close> on the running container \<open>''a''\<close>
  signals the supervisor and asks the runtime to destroy the container; no wait for the
  supervisor is among its calls, before the destroy request or after.
\<close>

theorem Destroy_waits_counterexample:
  "calls (snd (Destroy example_env example_running_store ''a'')) =
     [ProcessSignal \<lparr>proc_guid = ''a'', proc_step = StepFor ''sleep'', proc_started_tokens = 1\<rparr>,
      GardenDestroy ''a''] \<and>
   ProcessWait \<lparr>proc_guid = ''a'', proc_step = StepFor ''sleep'', proc_started_tokens = 1\<rparr>
     \<notin> set (calls (snd (Destroy example_env example_running_store ''a''))) \<and>
   fst (Destroy example_env example_running_store ''a'') = None \<and>
   gardenContainers (snd (Destroy example_env example_running_store ''a'')) ''a'' = None"
  by (simp add: Destroy_def freeStepProcess_def garden_Destroy_def Let_def
      example_running_store_process example_env_def)

subsection \<open>Stop without a registered step process\<close>

text \<open>
  Claim C10. \<^verbatim>\<open>Stop\<close> returns \<open>ErrContainerNotFound\<close> whenever no step process is
  registered under the guid, whatever the runtime holds, and leaves the store as it
  was; and a second \<^verbatim>\<open>Stop\<close> of the same guid returns \<open>ErrContainerNotFound\<close>,
  since the first removed the entry.
\<close>

theorem Stop_unregistered:
  "(runningProcesses s g = None \<longrightarrow> Stop s g = (Some ErrContainerNotFound, s)) \<and>
   fst (Stop (snd (Stop s g)) g) = Some ErrContainerNotFound"
  by (simp add: Stop_def freeStepProcess_def split: option.splits)

theorem Stop_unregistered_witness:
  "runningProcesses example_store ''a'' = None \<and>
   gardenContainers example_store ''a'' \<noteq> None \<and>
   Stop example_store ''a'' = (Some ErrContainerNotFound, example_store) \<and>
   fst (Stop example_running_store ''a'') = None \<and>
   fst (Stop (snd (Stop example_running_store ''a'')) ''a'') = Some ErrContainerNotFound"
proof -
  have a: "runningProcesses example_store ''a'' = None" by (simp add: example_store_def)
  have b: "fst (Stop example_running_store ''a'') = None"
    by (simp add: Stop_def freeStepProcess_def example_running_store_process)
  show ?thesis
    using Stop_unregistered [of example_store "''a''"]
      Stop_unregistered [of example_running_store "''a''"] a b
    by (simp add: example_store_def)
qed

section \<open>Theorems: the monitor steps\<close>

subsection \<open>Shared lemmas\<close>

lemma monitor_loop_never_healthy:
  "\<not> healthy v \<Longrightarrow> startBy v = Some sb \<Longrightarrow> \<forall>(t, e) \<in> set early. t \<le> sb \<Longrightarrow> sb < now \<Longrightarrow>
   monitor_loop step
     (map (\<lambda>(t, e). TimerC t (CheckReturned (Some e))) early @
      TimerC now (CheckReturned (Some err)) # rest) v =
     (Some (Some err),
      v\<lparr>timer_resets := timer_resets v @ replicate (length early) (interval v),
        stderr_lines := stderr_lines v @ [TimeoutMessage (startTimeout step)]\<rparr>)"
proof (induction early arbitrary: v)
  case Nil
  then show ?case by simp
next
  case (Cons a early)
  obtain t e where a: "a = (t, e)" by (cases a)
  let ?v = "v\<lparr>timer_resets := timer_resets v @ [interval v]\<rparr>"
  have "monitor_loop step
     (map (\<lambda>(t, e). TimerC t (CheckReturned (Some e))) early @
      TimerC now (CheckReturned (Some err)) # rest) ?v =
     (Some (Some err),
      ?v\<lparr>timer_resets := timer_resets ?v @ replicate (length early) (interval ?v),
        stderr_lines := stderr_lines ?v @ [TimeoutMessage (startTimeout step)]\<rparr>)"
    using Cons.prems by (intro Cons.IH) auto
  then show ?case using Cons.prems a by (simp add: replicate_append_same)
qed

lemma monitor_loop_success:
  "monitor_loop step (TimerC now (CheckReturned None) # rs) v =
     monitor_loop step rs
       (if healthy v
        then v\<lparr>startBy := (case startBy v of
                              Some sb \<Rightarrow> if sb < now then None else Some sb
                            | None \<Rightarrow> None),
               timer_resets := timer_resets v @ [interval v]\<rparr>
        else v\<lparr>healthy := True, interval := healthyInterval step, startBy := None,
               tokens_sent := Suc (tokens_sent v),
               timer_resets := timer_resets v @ [healthyInterval step]\<rparr>)"
  by (cases v) (auto split: option.splits)

lemma monitor_loop_failure:
  "monitor_loop step (TimerC now (CheckReturned (Some er)) # rs) v =
     (if healthy v then (Some (Some er), v)
      else
        (case startBy v of
           Some sb \<Rightarrow>
             if sb < now
             then (Some (Some er),
                   v\<lparr>stderr_lines := stderr_lines v @ [TimeoutMessage (startTimeout step)]\<rparr>)
             else monitor_loop step rs (v\<lparr>timer_resets := timer_resets v @ [interval v]\<rparr>)
         | None \<Rightarrow> monitor_loop step rs (v\<lparr>timer_resets := timer_resets v @ [interval v]\<rparr>)))"
  by (cases "healthy v"; cases "startBy v") simp_all

lemma monitor_loop_cancel_free:
  "list_all cancel_free rs \<Longrightarrow> tokens_sent v = (if healthy v then 1 else 0) \<Longrightarrow>
   fst (monitor_loop step rs v) \<noteq> Some None \<and> tokens_sent (snd (monitor_loop step rs v)) \<le> 1"
proof (induction rs arbitrary: v)
  case Nil
  then show ?case by simp
next
  case (Cons r rs)
  show ?case
  proof (cases r)
    case Cancelled
    then show ?thesis using Cons.prems by simp
  next
    case (TimerC now c)
    show ?thesis
    proof (cases c)
      case (CheckReturned stepErr)
      show ?thesis
      proof (cases stepErr)
        case None
        have "fst (monitor_loop step rs
                 (if healthy v
                  then v\<lparr>startBy := (case startBy v of
                              Some sb \<Rightarrow> if sb < now then None else Some sb
                            | None \<Rightarrow> None),
                         timer_resets := timer_resets v @ [interval v]\<rparr>
                  else v\<lparr>healthy := True, interval := healthyInterval step, startBy := None,
                         tokens_sent := Suc (tokens_sent v),
                         timer_resets := timer_resets v @ [healthyInterval step]\<rparr>)) \<noteq> Some None \<and>
              tokens_sent (snd (monitor_loop step rs
                 (if healthy v
                  then v\<lparr>startBy := (case startBy v of
                              Some sb \<Rightarrow> if sb < now then None else Some sb
                            | None \<Rightarrow> None),
                         timer_resets := timer_resets v @ [interval v]\<rparr>
                  else v\<lparr>healthy := True, interval := healthyInterval step, startBy := None,
                         tokens_sent := Suc (tokens_sent v),
                         timer_resets := timer_resets v @ [healthyInterval step]\<rparr>))) \<le> 1"
          using Cons.prems by (intro Cons.IH) (auto split: if_splits)
        then show ?thesis
          unfolding TimerC CheckReturned None monitor_loop_success .
      next
        case (Some er)
        have ih: "fst (monitor_loop step rs (v\<lparr>timer_resets := timer_resets v @ [interval v]\<rparr>)) \<noteq> Some None \<and>
              tokens_sent (snd (monitor_loop step rs (v\<lparr>timer_resets := timer_resets v @ [interval v]\<rparr>))) \<le> 1"
          using Cons.prems by (intro Cons.IH) (auto split: if_splits)
        show ?thesis
          unfolding TimerC CheckReturned Some monitor_loop_failure
          using ih Cons.prems(2) by (auto split: option.splits if_splits)
      qed
    next
      case (CheckCancelled x)
      then show ?thesis using Cons.prems TimerC by simp
    next
      case CheckNeverReturns
      then show ?thesis using Cons.prems TimerC by simp
    qed
  qed
qed

subsection \<open>The start timeout\<close>

text \<open>
  Claim C7, as amended. For the periodic monitor with a start timeout T > 0 and positive
  intervals: when every check fails, at timer instants up to the start instant plus T
  and then at an instant after it, \<^verbatim>\<open>Perform\<close> returns at that instant with the
  error of that last check as it is (not wrapped into an emittable error), has written
  the timeout message to the standard error stream, and has sent no token on
  \<^verbatim>\<open>hasStartedRunning\<close>. For the long-running monitor: when the start timer fires
  before the readiness check has returned, the check is cancelled once and
  \<^verbatim>\<open>Perform\<close> returns an emittable error that wraps what the check returned, has
  written the timeout message, and has sent no token.
\<close>

theorem monitor_start_timeout:
  assumes "0 < startTimeout step" and "0 < healthyInterval step" and "0 < unhealthyInterval step"
    and "\<forall>(t, e) \<in> set early. t \<le> start + startTimeout step"
    and "start + startTimeout step < now"
  shows
    "fst (monitor_Perform step start
            (map (\<lambda>(t, e). TimerC t (CheckReturned (Some e))) early @
             TimerC now (CheckReturned (Some err)) # rest)) = Some (Some err) \<and>
     tokens_sent (snd (monitor_Perform step start
            (map (\<lambda>(t, e). TimerC t (CheckReturned (Some e))) early @
             TimerC now (CheckReturned (Some err)) # rest))) = 0 \<and>
     stderr_lines (snd (monitor_Perform step start
            (map (\<lambda>(t, e). TimerC t (CheckReturned (Some e))) early @
             TimerC now (CheckReturned (Some err)) # rest))) = [TimeoutMessage (startTimeout step)] \<and>
     (\<forall>r. readiness w = StartTimerFired (Some r) \<longrightarrow>
        fst (longRunning_Perform fmt lstep w) =
          Some (Some (EmittableError r fmt [outBuffer_on_timeout w])) \<and>
        lr_tokens_sent (snd (longRunning_Perform fmt lstep w)) = 0 \<and>
        lr_readiness_cancels (snd (longRunning_Perform fmt lstep w)) = 1 \<and>
        lr_stderr (snd (longRunning_Perform fmt lstep w)) = [TimeoutMessage (lr_startTimeout lstep)])"
proof -
  let ?v = "\<lparr>healthy = False, interval = unhealthyInterval step,
             startBy = Some (start + startTimeout step),
             tokens_sent = 0, stderr_lines = [], timer_resets = []\<rparr>"
  have p: "monitor_Perform step start
            (map (\<lambda>(t, e). TimerC t (CheckReturned (Some e))) early @
             TimerC now (CheckReturned (Some err)) # rest) =
          monitor_loop step
            (map (\<lambda>(t, e). TimerC t (CheckReturned (Some e))) early @
             TimerC now (CheckReturned (Some err)) # rest) ?v"
    using assms(1-3) by (simp add: monitor_Perform_def)
  have l: "monitor_loop step
            (map (\<lambda>(t, e). TimerC t (CheckReturned (Some e))) early @
             TimerC now (CheckReturned (Some err)) # rest) ?v =
     (Some (Some err),
      ?v\<lparr>timer_resets := timer_resets ?v @ replicate (length early) (interval ?v),
         stderr_lines := stderr_lines ?v @ [TimeoutMessage (startTimeout step)]\<rparr>)"
    using assms(4,5) by (intro monitor_loop_never_healthy) simp_all
  show ?thesis
    unfolding p l by (simp add: longRunning_Perform_def)
qed

theorem monitor_start_timeout_witness:
  "fst (monitor_Perform example_monitor 0
          [TimerC 50 (CheckReturned (Some (OtherError ''connection refused''))),
           TimerC 100 (CheckReturned (Some (OtherError ''connection refused''))),
           TimerC 150 (CheckReturned (Some (OtherError ''still refused'')))]) =
     Some (Some (OtherError ''still refused'')) \<and>
   tokens_sent (snd (monitor_Perform example_monitor 0
          [TimerC 50 (CheckReturned (Some (OtherError ''connection refused''))),
           TimerC 100 (CheckReturned (Some (OtherError ''connection refused''))),
           TimerC 150 (CheckReturned (Some (OtherError ''still refused'')))])) = 0 \<and>
   fst (longRunning_Perform ''unhealthy: %s'' \<lparr>lr_startTimeout = 100\<rparr>
          \<lparr>readiness = StartTimerFired (Some (Some ErrCancelled)),
           liveness = LivenessNeverSelects,
           outBuffer_on_timeout = ''refused'', outBuffer_on_unhealthy = []\<rparr>) =
     Some (Some (EmittableError (Some ErrCancelled) ''unhealthy: %s'' [''refused'']))"
proof -
  have a: "0 < startTimeout example_monitor" "0 < healthyInterval example_monitor"
    "0 < unhealthyInterval example_monitor"
    by (simp_all add: example_monitor_def)
  have b: "\<forall>(t, e) \<in> set [(50, OtherError ''connection refused''),
                             (100, OtherError ''connection refused'')].
             t \<le> 0 + startTimeout example_monitor"
    by (simp add: example_monitor_def)
  have c: "0 + startTimeout example_monitor < 150" by (simp add: example_monitor_def)
  show ?thesis
    using monitor_start_timeout [OF a b c,
        where w = "\<lparr>readiness = StartTimerFired (Some (Some ErrCancelled)),
             liveness = LivenessNeverSelects,
             outBuffer_on_timeout = ''refused'', outBuffer_on_unhealthy = []\<rparr>"
          and err = "OtherError ''still refused''" and rest = "[]"
          and fmt = "''unhealthy: %s''" and lstep = "\<lparr>lr_startTimeout = 100\<rparr>"]
    by simp
qed

text \<open>
  The claim as stated fails. The periodic monitor, whose checks fail with a plain error
  until after the start timeout, returns that plain error, not an emittable one. The
  long-running monitor, whose readiness check returns an error before the start timer
  fires, goes on as if the check had passed and sends the token.
\<close>

theorem monitor_start_timeout_counterexample:
  "fst (monitor_Perform example_monitor 0
          [TimerC 50 (CheckReturned (Some (OtherError ''connection refused''))),
           TimerC 100 (CheckReturned (Some (OtherError ''connection refused''))),
           TimerC 150 (CheckReturned (Some (OtherError ''connection refused'')))]) =
     Some (Some (OtherError ''connection refused'')) \<and>
   lr_tokens_sent (snd (longRunning_Perform ''unhealthy: %s'' \<lparr>lr_startTimeout = 100\<rparr>
          \<lparr>readiness = ReadinessReturned (Some (OtherError ''connection refused'')),
           liveness = LivenessNeverSelects,
           outBuffer_on_timeout = [], outBuffer_on_unhealthy = []\<rparr>)) = 1"
  by (simp add: monitor_Perform_def example_monitor_def longRunning_Perform_def)

subsection \<open>The periodic monitor never returns nil\<close>

text \<open>
  Claim C9. Without a cancellation among its receptions, \<^verbatim>\<open>Perform\<close> of the
  periodic monitor never returns \<^verbatim>\<open>nil\<close> (whenever it returns, it returns an
  error), and it sends at most one token on \<^verbatim>\<open>hasStartedRunning\<close>. A check that
  passes never ends the loop: the loop goes on, after the first pass in the healthy
  state, with the healthy interval and one more token sent, and after a later pass with
  the token count unchanged.
\<close>

theorem monitor_never_returns_nil:
  "(list_all cancel_free rs \<longrightarrow>
      fst (monitor_Perform step start rs) \<noteq> Some None \<and>
      tokens_sent (snd (monitor_Perform step start rs)) \<le> 1) \<and>
   monitor_loop step (TimerC now (CheckReturned None) # rs') v =
     monitor_loop step rs'
       (if healthy v
        then v\<lparr>startBy := (case startBy v of
                              Some sb \<Rightarrow> if sb < now then None else Some sb
                            | None \<Rightarrow> None),
               timer_resets := timer_resets v @ [interval v]\<rparr>
        else v\<lparr>healthy := True, interval := healthyInterval step, startBy := None,
               tokens_sent := Suc (tokens_sent v),
               timer_resets := timer_resets v @ [healthyInterval step]\<rparr>)"
proof -
  have "fst (monitor_Perform step start rs) \<noteq> Some None \<and>
        tokens_sent (snd (monitor_Perform step start rs)) \<le> 1" if cf: "list_all cancel_free rs"
  proof (cases "healthyInterval step \<le> 0 \<or> unhealthyInterval step \<le> 0")
    case True
    then show ?thesis by (auto simp: monitor_Perform_def Let_def)
  next
    case False
    let ?v = "\<lparr>healthy = False, interval = unhealthyInterval step,
            startBy = (if 0 < startTimeout step then Some (start + startTimeout step) else None),
            tokens_sent = 0, stderr_lines = [], timer_resets = []\<rparr>"
    have p: "monitor_Perform step start rs = monitor_loop step rs ?v"
      using False by (simp add: monitor_Perform_def Let_def)
    have "tokens_sent ?v = (if healthy ?v then 1 else 0)" by simp
    from monitor_loop_cancel_free [OF cf this] show ?thesis
      unfolding p .
  qed
  then show ?thesis using monitor_loop_success [of step now rs' v] by blast
qed

theorem monitor_never_returns_nil_witness:
  "list_all cancel_free
     [TimerC 50 (CheckReturned (Some (OtherError ''refused''))),
      TimerC 100 (CheckReturned None),
      TimerC 130 (CheckReturned None),
      TimerC 160 (CheckReturned (Some (OtherError ''crashed'')))] \<and>
   monitor_Perform example_monitor 0
     [TimerC 50 (CheckReturned (Some (OtherError ''refused''))),
      TimerC 100 (CheckReturned None),
      TimerC 130 (CheckReturned None),
      TimerC 160 (CheckReturned (Some (OtherError ''crashed'')))] =
     (Some (Some (OtherError ''crashed'')),
      \<lparr>healthy = True, interval = 30, startBy = None, tokens_sent = 1, stderr_lines = [],
       timer_resets = [50, 30, 30]\<rparr>) \<and>
   fst (monitor_Perform example_monitor 0
     [TimerC 50 (CheckReturned (Some (OtherError ''refused''))),
      TimerC 100 (CheckReturned None),
      TimerC 130 (CheckReturned None),
      TimerC 160 (CheckReturned (Some (OtherError ''crashed'')))]) \<noteq> Some None"
proof -
  have cf: "list_all cancel_free
     [TimerC 50 (CheckReturned (Some (OtherError ''refused''))),
      TimerC 100 (CheckReturned None),
      TimerC 130 (CheckReturned None),
      TimerC 160 (CheckReturned (Some (OtherError ''crashed'')))]"
    by simp
  have ev: "monitor_Perform example_monitor 0
     [TimerC 50 (CheckReturned (Some (OtherError ''refused''))),
      TimerC 100 (CheckReturned None),
      TimerC 130 (CheckReturned None),
      TimerC 160 (CheckReturned (Some (OtherError ''crashed'')))] =
     (Some (Some (OtherError ''crashed'')),
      \<lparr>healthy = True, interval = 30, startBy = None, tokens_sent = 1, stderr_lines = [],
       timer_resets = [50, 30, 30]\<rparr>)"
    by (simp add: monitor_Perform_def example_monitor_def)
  show ?thesis
    using monitor_never_returns_nil [of
        "[TimerC 50 (CheckReturned (Some (OtherError ''refused''))),
          TimerC 100 (CheckReturned None),
          TimerC 130 (CheckReturned None),
          TimerC 160 (CheckReturned (Some (OtherError ''crashed'')))]" example_monitor 0] cf ev
    by simp
qed

section \<open>Theorems: the download step\<close>

text \<open>
  Claim C8 fails on the download step. The first \<^verbatim>\<open>Cancel\<close> of a new download step
  closes its cancellation channel; a second \<^verbatim>\<open>Cancel\<close> closes the closed channel,
  which panics. The upload step's \<^verbatim>\<open>Cancel\<close> does nothing, any number of times.
\<close>

theorem downloadStep_Cancel_twice:
  "downloadStep_Cancel (NewDownload from to cacheKey) =
     Inr ((NewDownload from to cacheKey)\<lparr>cancelChan := Closed\<rparr>) \<and>
   downloadStep_Cancel ((NewDownload from to cacheKey)\<lparr>cancelChan := Closed\<rparr>) =
     Inl CloseOfClosedChannel \<and>
   UploadStep_Cancel u = Inr u"
  by (simp add: downloadStep_Cancel_def NewDownload_def close_chan_def UploadStep_Cancel_def)

section \<open>Theorems: the allocation store\<close>






section \<open>Theorems: the serial and the parallel step\<close>

lemma serial_loop_failure:
  "\<forall>c \<in> set pre. PerformStub c = None \<Longrightarrow> PerformStub b = Some err \<Longrightarrow>
   serial_loop i (pre @ b # post) done log =
     (Some err,
      log @ map Performed [i..<i + length pre] @ [Performed (i + length pre)] @
      map CleanedUp (rev [i..<i + length pre] @ done))"
proof (induction pre arbitrary: i "done" log)
  case Nil
  then show ?case by simp
next
  case (Cons a pre)
  have "serial_loop (Suc i) (pre @ b # post) (i # done) (log @ [Performed i]) =
     (Some err,
      (log @ [Performed i]) @ map Performed [Suc i..<Suc i + length pre] @
      [Performed (Suc i + length pre)] @
      map CleanedUp (rev [Suc i..<Suc i + length pre] @ i # done))"
    using Cons.prems by (intro Cons.IH) simp_all
  moreover have "[i..<i + length (a # pre)] = i # [Suc i..<Suc i + length pre]"
    by (simp add: upt_conv_Cons del: upt_Suc)
  ultimately show ?case using Cons.prems by (simp del: upt_Suc)
qed

text \<open>
  Claim C5. For every serial step over three children of which the first succeeds and
  the second fails: the first is performed, then the second; then the first is cleaned
  up; the third is neither performed nor cleaned up (nor is the second cleaned up); and
  the outcome is the second's error.
\<close>

theorem serial_middle_failure:
  assumes "PerformStub a = None" and "PerformStub b = Some err"
  shows "serial_Perform [a, b, c] = (Some err, [Performed 0, Performed 1, CleanedUp 0]) \<and>
         Performed 2 \<notin> set (snd (serial_Perform [a, b, c])) \<and>
         CleanedUp 2 \<notin> set (snd (serial_Perform [a, b, c]))"
  using assms by (simp add: serial_Perform_def)

theorem serial_middle_failure_witness:
  "PerformStub \<lparr>PerformStub = None\<rparr> = None \<and>
   PerformStub \<lparr>PerformStub = Some (OtherError ''oh no!'')\<rparr> = Some (OtherError ''oh no!'') \<and>
   serial_Perform [\<lparr>PerformStub = None\<rparr>, \<lparr>PerformStub = Some (OtherError ''oh no!'')\<rparr>,
                   \<lparr>PerformStub = None\<rparr>] =
     (Some (OtherError ''oh no!''), [Performed 0, Performed 1, CleanedUp 0])"
proof -
  have a: "PerformStub \<lparr>PerformStub = None\<rparr> = None" by simp
  have b: "PerformStub \<lparr>PerformStub = Some (OtherError ''oh no!'')\<rparr> = Some (OtherError ''oh no!'')"
    by simp
  show ?thesis
    using serial_middle_failure [OF a b, of "\<lparr>PerformStub = None\<rparr>"] by simp
qed

text \<open>
  Claim C6. For every parallel step over two children of which the first fails and
  completes while the second is still running: \<^verbatim>\<open>Perform\<close> has not returned; once
  the second has completed too, whatever its outcome, \<^verbatim>\<open>Perform\<close> returns the first
  child's error.
\<close>

theorem parallel_waits_for_the_rest:
  assumes "PerformStub a = Some err"
  shows "parallel_Perform [a, b] [0] = None \<and>
         parallel_Perform [a, b] [0, 1] = Some (Some err)"
  using assms by (simp add: parallel_Perform_def numeral_2_eq_2)

theorem parallel_waits_for_the_rest_witness:
  "PerformStub \<lparr>PerformStub = Some (OtherError ''oh no!'')\<rparr> = Some (OtherError ''oh no!'') \<and>
   parallel_Perform [\<lparr>PerformStub = Some (OtherError ''oh no!'')\<rparr>, \<lparr>PerformStub = None\<rparr>] [0] =
     None \<and>
   parallel_Perform [\<lparr>PerformStub = Some (OtherError ''oh no!'')\<rparr>, \<lparr>PerformStub = None\<rparr>] [0, 1] =
     Some (Some (OtherError ''oh no!''))"
proof -
  have a: "PerformStub \<lparr>PerformStub = Some (OtherError ''oh no!'')\<rparr> = Some (OtherError ''oh no!'')"
    by simp
  show ?thesis
    using parallel_waits_for_the_rest [OF a, of "\<lparr>PerformStub = None\<rparr>"] by simp
qed

end
